theory Spec2Isabelle
  imports Complex_Main "HOL-Library.Word"
begin

unbundle bit_operations_syntax

section \<open>Wire protocol constants (asr\_client.h)\<close>

text \<open>
  A \<open>std::string\<close> is a \<^typ>\<open>string\<close>: a list of 8-bit characters, used both
  for text and for raw frame bytes. \<^const>\<open>of_char\<close> reads a character as the number
  0..255 that the masks of the codec work on, \<^const>\<open>char_of\<close> is the truncating
  conversion of \<open>push_back\<close>.
\<close>

datatype MessageType =
    FULL_CLIENT_REQUEST
  | AUDIO_ONLY_CLIENT_REQUEST
  | FULL_SERVER_RESPONSE
  | SERVER_ACK
  | ERROR_MESSAGE_FROM_SERVER

fun MessageType_val :: "MessageType \<Rightarrow> nat" where
  "MessageType_val FULL_CLIENT_REQUEST = 1"
| "MessageType_val AUDIO_ONLY_CLIENT_REQUEST = 2"
| "MessageType_val FULL_SERVER_RESPONSE = 9"
| "MessageType_val SERVER_ACK = 11"
| "MessageType_val ERROR_MESSAGE_FROM_SERVER = 15"

datatype MessageTypeFlag =
    NO_SEQUENCE_NUMBER
  | POSITIVE_SEQUENCE_CLIENT_ASSGIN
  | NEGATIVE_SEQUENCE_SERVER_ASSGIN
  | NEGATIVE_SEQUENCE_CLIENT_ASSIGN

fun MessageTypeFlag_val :: "MessageTypeFlag \<Rightarrow> nat" where
  "MessageTypeFlag_val NO_SEQUENCE_NUMBER = 0"
| "MessageTypeFlag_val POSITIVE_SEQUENCE_CLIENT_ASSGIN = 1"
| "MessageTypeFlag_val NEGATIVE_SEQUENCE_SERVER_ASSGIN = 2"
| "MessageTypeFlag_val NEGATIVE_SEQUENCE_CLIENT_ASSIGN = 3"

datatype MessageSerial = NO_SERIAL | JSON | CUSTOM_SERIAL

fun MessageSerial_val :: "MessageSerial \<Rightarrow> nat" where
  "MessageSerial_val NO_SERIAL = 0"
| "MessageSerial_val JSON = 1"
| "MessageSerial_val CUSTOM_SERIAL = 15"

datatype MessageCompress = NO_COMPRESS | GZIP | CUSTOM_COMPRESS

fun MessageCompress_val :: "MessageCompress \<Rightarrow> nat" where
  "MessageCompress_val NO_COMPRESS = 0"
| "MessageCompress_val GZIP = 1"
| "MessageCompress_val CUSTOM_COMPRESS = 15"

datatype AuthType = TOKEN | SIGNATURE

section \<open>JSON values (nlohmann::json, as far as the client inspects them)\<close>

text \<open>
  The library keeps three kinds of number: \<open>number_integer\<close> (a signed 64-bit value),
  \<open>number_unsigned\<close> (an unsigned 64-bit value) and \<open>number_float\<close>.
  \<open>is_number_integer()\<close> holds of the first two. An object is an association list;
  the first binding of a key is the one that counts.
\<close>

datatype json =
    JNull
  | JBool bool
  | JInteger "64 word"
  | JUnsigned "64 word"
  | JFloat real
  | JString string
  | JArray "json list"
  | JObject "(string \<times> json) list"

fun contains :: "json \<Rightarrow> string \<Rightarrow> bool" where
  "contains (JObject kvs) k = (map_of kvs k \<noteq> None)"
| "contains _ k = False"

fun json_at :: "json \<Rightarrow> string \<Rightarrow> json" where
  "json_at (JObject kvs) k = (case map_of kvs k of Some v \<Rightarrow> v | None \<Rightarrow> JNull)"
| "json_at _ k = JNull"

fun is_number_integer :: "json \<Rightarrow> bool" where
  "is_number_integer (JInteger _) = True"
| "is_number_integer (JUnsigned _) = True"
| "is_number_integer _ = False"

text \<open>
  \<open>v != json(1000)\<close> and \<open>v < json(0)\<close> for an integer \<open>v\<close>: the right operand is a
  \<open>number_integer\<close>, and an unsigned left operand is cast to the signed type before
  the comparison. Both are only called under \<^const>\<open>is_number_integer\<close>.
\<close>

fun json_ne_integer :: "json \<Rightarrow> 64 word \<Rightarrow> bool" where
  "json_ne_integer (JInteger w) k = (w \<noteq> k)"
| "json_ne_integer (JUnsigned w) k = (w \<noteq> k)"
| "json_ne_integer _ k = True"

fun json_lt_integer :: "json \<Rightarrow> 64 word \<Rightarrow> bool" where
  "json_lt_integer (JInteger w) k = (sint w < sint k)"
| "json_lt_integer (JUnsigned w) k = (sint w < sint k)"
| "json_lt_integer _ k = False"

section \<open>Library functions the client calls\<close>

text \<open>
  The gzip codec (boost::iostreams), the JSON parser and printer (nlohmann::json), the
  HMAC (OpenSSL) and the base64 encoder (boost::beast) are not part of the repository.
  They are parameters of the model. A decompressor that throws is \<open>None\<close>; a parser
  that throws returns the exception's message on the left.
\<close>

record library =
  gzip :: "string \<Rightarrow> string"
  gunzip :: "string \<Rightarrow> string option"
  json_parse :: "string \<Rightarrow> string + json"
  json_dump :: "json \<Rightarrow> string"
  type_error_what :: "json \<Rightarrow> string"
  hmac_sha256 :: "string \<Rightarrow> string \<Rightarrow> string"
  base64_encode :: "string \<Rightarrow> string"

datatype fault =
    NullDereference
  | OutOfBoundsRead
  | OutOfRange
  | GzipError

definition bindf :: "fault + 'a \<Rightarrow> ('a \<Rightarrow> fault + 'b) \<Rightarrow> fault + 'b" where
  "bindf m f = (case m of Inl e \<Rightarrow> Inl e | Inr x \<Rightarrow> f x)"

text \<open>A C string ends at its first NUL: \<open>c_str\<close> is what a \<open>char *\<close> reader sees.\<close>

definition c_str :: "string \<Rightarrow> string" where
  "c_str s = takeWhile (\<lambda>ch. ch \<noteq> CHR 0x00) s"

definition strlen :: "string \<Rightarrow> nat" where
  "strlen s = length (c_str s)"

text \<open>\<open>gzip_compress\<close> and \<open>gzip_decompress\<close> push the library's filter over the data.\<close>

definition gzip_compress :: "library \<Rightarrow> string \<Rightarrow> string" where
  "gzip_compress lib data = gzip lib data"

definition gzip_decompress :: "library \<Rightarrow> string \<Rightarrow> fault + string" where
  "gzip_decompress lib data =
     (case gunzip lib data of None \<Rightarrow> Inl GzipError | Some d \<Rightarrow> Inr d)"

section \<open>The client object\<close>

text \<open>
  What the program does to the outside is a list of actions: calls on the websocket
  connection, calls of the \<open>AsrCallback\<close> interface, and calls of the two
  \<open>std::function\<close> callbacks a caller of \<open>recognize\<close> supplies.
\<close>

datatype action =
    ConSend string
  | ConClose
  | CbOpen
  | CbMessage string
  | CbError string
  | CbClose
  | OnResult string bool
  | OnError string

text \<open>The adapter holds the two callbacks; an empty \<open>std::function\<close> is \<open>False\<close>.\<close>

record AsrClientAdapter =
  has_onResult :: bool
  has_onError :: bool

record connection =
  resource :: string
  host_port :: string
  request_headers :: "(string \<times> string) list"

record AsrClient =
  url :: string
  full_req_param :: string
  reqid :: string
  seq_no :: "32 word"
  appid :: string
  token :: string
  sk :: string
  auth_type :: AuthType
  cluster :: string
  uid :: string
  workflow :: string
  nbest :: "32 word"
  show_language :: bool
  show_utterances :: bool
  result_type :: string
  language :: string
  audio_format :: string
  sample_rate :: "32 word"
  bits :: "32 word"
  channels :: "32 word"
  codec :: string
  recv_last_msg :: bool
  protocol_version :: "8 word"
  header_size :: "8 word"
  message_serial :: MessageSerial
  message_compress :: MessageCompress
  reserved :: "8 word"
  connected_notify :: bool
  connected :: bool
  use_sync_connect :: bool
  user_agent :: string
  con :: "connection option"
  asr_callback :: "AsrClientAdapter option"

text \<open>
  The constructor and the member initialisers of the class. The request id is a random
  UUID, the user agent is the websocket library's: both are arguments.
\<close>

definition new_AsrClient :: "string \<Rightarrow> string \<Rightarrow> AsrClient" where
  "new_AsrClient rid ua =
     \<lparr> url = ''wss://openspeech.bytedance.com/api/v2/asr'',
       full_req_param = [],
       reqid = rid,
       seq_no = 1,
       appid = [],
       token = [],
       sk = [],
       auth_type = TOKEN,
       cluster = [],
       uid = ''fcitx5-asr'',
       workflow = ''audio_in,resample,partition,vad,fe,decode'',
       nbest = 1,
       show_language = False,
       show_utterances = False,
       result_type = ''full'',
       language = ''zh-CN'',
       audio_format = ''wav'',
       sample_rate = 16000,
       bits = 16,
       channels = 1,
       codec = ''raw'',
       recv_last_msg = False,
       protocol_version = 1,
       header_size = 4,
       message_serial = JSON,
       message_compress = GZIP,
       reserved = 0,
       connected_notify = False,
       connected = False,
       use_sync_connect = False,
       user_agent = ua,
       con = None,
       asr_callback = None \<rparr>"

section \<open>Encoding frames\<close>

text \<open>The four bytes of \<open>native_to_big<uint32_t>(n)\<close>, in memory order.\<close>

definition be32 :: "32 word \<Rightarrow> string" where
  "be32 w = map (\<lambda>i. char_of (unat (drop_bit (8 * i) w))) [3, 2, 1, 0]"

text \<open>
  The buffer \<open>payload\<close> that \<open>send_audio\<close> builds: the header, the length of the
  compressed audio and the compressed audio. The operands of \<open><<\<close>, \<open>>>\<close> and
  \<open>|\<close> are promoted to \<open>int\<close> and the result is truncated to a \<open>char\<close>.
\<close>

definition audio_frame :: "library \<Rightarrow> AsrClient \<Rightarrow> string \<Rightarrow> bool \<Rightarrow> string" where
  "audio_frame lib c audio is_last =
     (let gzip_data = gzip_compress lib audio in
        [ char_of (push_bit 4 (unat (protocol_version c)) OR drop_bit 2 (unat (header_size c))),
          (if \<not> is_last
           then char_of (push_bit 4 (MessageType_val AUDIO_ONLY_CLIENT_REQUEST)
                           OR MessageTypeFlag_val NO_SEQUENCE_NUMBER)
           else char_of (push_bit 4 (MessageType_val AUDIO_ONLY_CLIENT_REQUEST)
                           OR MessageTypeFlag_val NEGATIVE_SEQUENCE_SERVER_ASSGIN)),
          char_of (push_bit 4 (MessageSerial_val (message_serial c))
                     OR MessageCompress_val (message_compress c)),
          char_of (unat (reserved c)) ]
        @ be32 (word_of_nat (length gzip_data))
        @ gzip_data)"

text \<open>
  \<open>send_audio\<close> writes the frame on the connection and returns the value of the
  library's error code, which is the argument \<open>ec\<close> (0 when the write was accepted).
  The connection pointer is null until \<open>connect\<close> has created a connection.
\<close>

definition send_audio ::
  "library \<Rightarrow> AsrClient \<Rightarrow> string \<Rightarrow> bool \<Rightarrow> int \<Rightarrow> fault + (int \<times> action list)" where
  "send_audio lib c audio is_last ec =
     (case con c of
        None \<Rightarrow> Inl NullDereference
      | Some _ \<Rightarrow> Inr (ec, [ConSend (audio_frame lib c audio is_last)]))"

text \<open>The fields of a frame header, read as the decoder reads them.\<close>

definition frame_message_type :: "string \<Rightarrow> nat" where
  "frame_message_type frame = drop_bit 4 (of_char (frame ! 1) AND (240::nat))"

definition frame_flags :: "string \<Rightarrow> nat" where
  "frame_flags frame = of_char (frame ! 1) AND (15::nat)"

section \<open>Decoding frames\<close>

text \<open>
  \<open>response[i]\<close> on a constant string: the character at \<open>i\<close>, the terminating NUL
  at \<open>i = size()\<close>, and no defined value beyond.
\<close>

definition str_at :: "string \<Rightarrow> nat \<Rightarrow> fault + char" where
  "str_at s i =
     (if i < length s then Inr (s ! i)
      else if i = length s then Inr (CHR 0x00)
      else Inl OutOfBoundsRead)"

definition data_byte :: "string \<Rightarrow> nat \<Rightarrow> char" where
  "data_byte s i = (if i < length s then s ! i else CHR 0x00)"

definition u32_of_bytes :: "char \<Rightarrow> char \<Rightarrow> char \<Rightarrow> char \<Rightarrow> 32 word" where
  "u32_of_bytes b0 b1 b2 b3 =
     push_bit 24 (word_of_nat (of_char b0)) OR push_bit 16 (word_of_nat (of_char b1))
       OR push_bit 8 (word_of_nat (of_char b2)) OR word_of_nat (of_char b3)"

text \<open>
  \<open>big_to_native(*(unsigned int *)(response.data() + off))\<close>: four bytes of the buffer
  \<open>data()\<close>, which ends with the terminating NUL; a read that goes past it has no
  defined value.
\<close>

definition read_be32 :: "string \<Rightarrow> nat \<Rightarrow> fault + 32 word" where
  "read_be32 s off =
     (if off + 4 \<le> length s + 1
      then Inr (u32_of_bytes (data_byte s off) (data_byte s (off + 1))
                  (data_byte s (off + 2)) (data_byte s (off + 3)))
      else Inl OutOfBoundsRead)"

text \<open>\<open>s.substr(pos, n)\<close> throws \<open>std::out_of_range\<close> when \<open>pos > size()\<close>.\<close>

definition substr :: "string \<Rightarrow> nat \<Rightarrow> nat \<Rightarrow> fault + string" where
  "substr s pos n = (if pos > length s then Inl OutOfRange else Inr (take n (drop pos s)))"

text \<open>The two tests on the parsed payload at the end of \<open>parse_response\<close>.\<close>

definition code_not_success :: "json \<Rightarrow> bool" where
  "code_not_success payload_obj =
     (contains payload_obj ''code''
      \<and> is_number_integer (json_at payload_obj ''code'')
      \<and> json_ne_integer (json_at payload_obj ''code'') 1000)"

definition sequence_negative :: "json \<Rightarrow> bool" where
  "sequence_negative payload_obj =
     (contains payload_obj ''sequence''
      \<and> is_number_integer (json_at payload_obj ''sequence'')
      \<and> json_lt_integer (json_at payload_obj ''sequence'') 0)"

text \<open>
  \<open>parse_response\<close> returns its \<open>int\<close>, the out-parameter \<open>payload_msg\<close> (whose value at
  the call is the last argument) and the client, whose \<open>_recv_last_msg\<close> it may set.
  The first step finds the length and the offset of the payload, or leaves with -1 on
  a message type it does not know.
\<close>

definition parse_response ::
  "library \<Rightarrow> AsrClient \<Rightarrow> string \<Rightarrow> string \<Rightarrow> fault + (int \<times> string \<times> AsrClient)" where
  "parse_response lib c response payload_msg =
     bindf (str_at response 0) (\<lambda>r0.
     bindf (str_at response 1) (\<lambda>r1.
     bindf (str_at response 2) (\<lambda>r2.
       let header_len = push_bit 2 (of_char r0 AND (15::nat));
           message_type = drop_bit 4 (of_char r1 AND (240::nat));
           message_serial = drop_bit 4 (of_char r2 AND (240::nat));
           message_compress = of_char r2 AND (15::nat)
       in
       bindf
         (if message_type = MessageType_val FULL_SERVER_RESPONSE then
            bindf (read_be32 response header_len) (\<lambda>payload_len.
              Inr (Some (header_len + 4, payload_len)))
          else if message_type = MessageType_val SERVER_ACK then
            bindf (read_be32 response header_len) (\<lambda>seq.
              if length response > 8 then
                bindf (read_be32 response (header_len + 4)) (\<lambda>payload_len.
                  Inr (Some (header_len + 8, payload_len)))
              else Inr (Some (0, 0)))
          else if message_type = MessageType_val ERROR_MESSAGE_FROM_SERVER then
            bindf (read_be32 response header_len) (\<lambda>error_code.
            bindf (read_be32 response (header_len + 4)) (\<lambda>payload_len.
              Inr (Some (header_len + 8, payload_len))))
          else Inr None)
         (\<lambda>located.
            case located of
              None \<Rightarrow> Inr (- 1, payload_msg, c)
            | Some (payload_offset, payload_len) \<Rightarrow>
                bindf
                  (if message_compress = MessageCompress_val GZIP \<and> payload_len > 0
                   then bindf (substr response payload_offset (unat payload_len))
                          (gzip_decompress lib)
                   else Inr [])
                  (\<lambda>payload.
                     case (if message_serial = MessageSerial_val JSON \<and> payload \<noteq> []
                           then json_parse lib payload else Inr JNull) of
                       Inl what \<Rightarrow> Inr (- 1, payload_msg, c)
                     | Inr payload_obj \<Rightarrow>
                         if code_not_success payload_obj then Inr (- 1, payload, c)
                         else if sequence_negative payload_obj
                         then Inr (0, payload, c\<lparr>recv_last_msg := True\<rparr>)
                         else Inr (0, payload, c))))))"

section \<open>Callbacks\<close>

text \<open>
  \<open>AsrClientAdapter::on_message\<close>: with a result callback, parse the message; a
  \<open>result\<close> member that is a string goes to the result callback with \<open>true\<close>; a
  parse error, or a \<open>result\<close> that does not convert to a string, is an exception whose
  message goes to the error callback, when there is one.
\<close>

definition adapter_on_message :: "library \<Rightarrow> AsrClientAdapter \<Rightarrow> string \<Rightarrow> action list" where
  "adapter_on_message lib a msg =
     (if has_onResult a then
        (case json_parse lib msg of
           Inl what \<Rightarrow> (if has_onError a then [OnError (''JSON parse error: '' @ what)] else [])
         | Inr j \<Rightarrow>
             if contains j ''result'' then
               (case json_at j ''result'' of
                  JString result \<Rightarrow> [OnResult result True]
                | v \<Rightarrow> (if has_onError a
                        then [OnError (''JSON parse error: '' @ type_error_what lib v)]
                        else []))
             else [])
      else [])"

definition adapter_on_error :: "AsrClientAdapter \<Rightarrow> string \<Rightarrow> action list" where
  "adapter_on_error a msg = (if has_onError a then [OnError msg] else [])"

text \<open>
  \<open>AsrClient::on_message\<close>: decode, hand \<open>payload_msg\<close> to the callback object if
  there is one, and ask for a normal closure when \<open>parse_response\<close> did not return 0.
\<close>

definition on_message :: "library \<Rightarrow> AsrClient \<Rightarrow> string \<Rightarrow> fault + (action list \<times> AsrClient)" where
  "on_message lib c msg =
     bindf (parse_response lib c msg []) (\<lambda>(ret, payload_msg, c').
       Inr ((case asr_callback c' of
               None \<Rightarrow> []
             | Some a \<Rightarrow> CbMessage payload_msg # adapter_on_message lib a payload_msg)
            @ (if ret \<noteq> 0 then [ConClose] else []),
            c'))"

section \<open>Connecting\<close>

text \<open>
  \<open>construct_param\<close> appends the full client request to \<open>_full_req_param\<close>: the
  header, the length of the compressed JSON text and the compressed JSON text. The
  \<open>int\<close> members enter the JSON object as \<open>number_integer\<close>.
\<close>

definition construct_param :: "library \<Rightarrow> AsrClient \<Rightarrow> AsrClient" where
  "construct_param lib c =
     (let req_obj = JObject
            [ (''app'', JObject
                 [ (''appid'', JString (appid c)),
                   (''cluster'', JString (cluster c)),
                   (''token'', JString (token c)) ]),
              (''user'', JObject [ (''uid'', JString (uid c)) ]),
              (''request'', JObject
                 [ (''reqid'', JString (reqid c)),
                   (''nbest'', JInteger (scast (nbest c))),
                   (''workflow'', JString (workflow c)),
                   (''show_language'', JBool (show_language c)),
                   (''show_utterances'', JBool (show_utterances c)),
                   (''result_type'', JString (result_type c)),
                   (''sequence'', JInteger (scast (seq_no c))) ]),
              (''audio'', JObject
                 [ (''format'', JString (audio_format c)),
                   (''rate'', JInteger (scast (sample_rate c))),
                   (''language'', JString (language c)),
                   (''bits'', JInteger (scast (bits c))),
                   (''channel'', JInteger (scast (channels c))),
                   (''codec'', JString (codec c)) ]) ];
          payload = gzip_compress lib (json_dump lib req_obj)
      in c\<lparr>full_req_param :=
             full_req_param c
             @ [ char_of (push_bit 4 (unat (protocol_version c)) OR drop_bit 2 (unat (header_size c))),
                 char_of (push_bit 4 (MessageType_val FULL_CLIENT_REQUEST)
                            OR MessageTypeFlag_val NO_SEQUENCE_NUMBER),
                 char_of (push_bit 4 (MessageSerial_val (message_serial c))
                            OR MessageCompress_val (message_compress c)),
                 char_of (unat (reserved c)) ]
             @ be32 (word_of_nat (length payload))
             @ payload\<rparr>)"

text \<open>\<open>std::replace(first, last, old, new)\<close> over a whole string.\<close>

definition replace_char :: "char \<Rightarrow> char \<Rightarrow> string \<Rightarrow> string" where
  "replace_char old new s = map (\<lambda>ch. if ch = old then new else ch) s"

text \<open>
  \<open>set_auth_header\<close> appends the \<open>Authorization\<close> header to the connection. The
  base64 text is written to the stream from a \<open>char\<close> buffer, so up to its first NUL.
\<close>

definition set_auth_header :: "library \<Rightarrow> AsrClient \<Rightarrow> connection \<Rightarrow> connection" where
  \<open>set_auth_header lib c k =
     (if auth_type c = TOKEN then
        k\<lparr>request_headers := request_headers k @ [(''Authorization'', ''Bearer; '' @ token c)]\<rparr>
      else
        let data = ''GET '' @ resource k @ '' HTTP/1.1'' @ [CHR 0x0A]
                     @ user_agent c @ [CHR 0x0A] @ full_req_param c;
            hmac_buff = hmac_sha256 lib (sk c) data;
            base64_buff = c_str (base64_encode lib hmac_buff);
            auth = ''HMAC256; access_token="'' @ token c @ ''"; mac="'' @ base64_buff
                     @ ''"; h="User-Agent"'';
            auth1 = replace_char (CHR ''+'') (CHR ''-'') auth;
            auth2 = replace_char (CHR ''/'') (CHR ''_'') auth1
        in k\<lparr>request_headers := request_headers k @ [(''Authorization'', auth2)]\<rparr>)\<close>

text \<open>
  What the websocket library answers when \<open>connect\<close> sets the endpoint up is an
  argument: \<open>init_asio\<close> fails, \<open>get_connection\<close> fails (and returns a null
  pointer), or a connection object is created. An exception of the library in the last
  step, the request to connect, is caught and leaves the state and the return value of
  the third case.
\<close>

datatype connect_setup = InitAsioFailed | GetConnectionFailed | Created connection

definition connect :: "library \<Rightarrow> AsrClient \<Rightarrow> connect_setup \<Rightarrow> int \<times> AsrClient" where
  "connect lib c setup =
     (case setup of
        InitAsioFailed \<Rightarrow> (- 1, c)
      | GetConnectionFailed \<Rightarrow> (- 1, c\<lparr>con := None\<rparr>)
      | Created k \<Rightarrow>
          (let c1 = construct_param lib (c\<lparr>con := Some k\<rparr>)
           in (0, c1\<lparr>con := Some (set_auth_header lib c1 k)\<rparr>)))"

section \<open>Socket events\<close>

text \<open>
  The handlers the I/O thread runs. \<open>on_open\<close> also sends the full client request.
  Each handler is one step, and its actions are in the order of the I/O thread.
  \<open>on_open\<close> wakes a waiting caller before it sends the full client request, so in the
  program the caller's own send and close may also come before that send: where a list
  of actions joins the two threads it keeps the order of each thread, and the full
  request first is one of the orders that can happen.
\<close>

definition on_open :: "AsrClient \<Rightarrow> action list \<times> AsrClient" where
  "on_open c =
     ((case asr_callback c of None \<Rightarrow> [] | Some a \<Rightarrow> [CbOpen])
        @ [ConSend (full_req_param c)],
      (if use_sync_connect c then c\<lparr>connected_notify := True, connected := True\<rparr> else c))"

definition on_error :: "AsrClient \<Rightarrow> action list \<times> AsrClient" where
  "on_error c =
     ((case asr_callback c of
         None \<Rightarrow> []
       | Some a \<Rightarrow> CbError ''connection error'' # adapter_on_error a ''connection error''),
      (if use_sync_connect c then c\<lparr>connected_notify := True, connected := False\<rparr> else c))"

definition on_close :: "AsrClient \<Rightarrow> action list \<times> AsrClient" where
  "on_close c = ((case asr_callback c of None \<Rightarrow> [] | Some a \<Rightarrow> [CbClose]), c)"

datatype socket_event = EvOpen | EvFail | EvMessage string | EvClose

definition handle_event ::
  "library \<Rightarrow> AsrClient \<Rightarrow> socket_event \<Rightarrow> fault + (action list \<times> AsrClient)" where
  "handle_event lib c ev =
     (case ev of
        EvOpen \<Rightarrow> Inr (on_open c)
      | EvFail \<Rightarrow> Inr (on_error c)
      | EvMessage msg \<Rightarrow> on_message lib c msg
      | EvClose \<Rightarrow> Inr (on_close c))"

text \<open>The events of a connection, handled one after the other.\<close>

fun run_events ::
  "library \<Rightarrow> AsrClient \<Rightarrow> socket_event list \<Rightarrow> fault + (action list \<times> AsrClient)" where
  "run_events lib c [] = Inr ([], c)"
| "run_events lib c (ev # evs) =
     bindf (handle_event lib c ev) (\<lambda>(acts, c').
     bindf (run_events lib c' evs) (\<lambda>(acts', c'').
       Inr (acts @ acts', c'')))"

text \<open>
  The wait of \<open>sync_connect\<close> ends when \<open>_connected_notify\<close> is set or the timeout
  elapses. The argument is the list of events the I/O thread handles before the
  timeout; an empty list is a wait that times out with nothing heard from the socket.
\<close>

fun wait_for ::
  "library \<Rightarrow> AsrClient \<Rightarrow> socket_event list \<Rightarrow> fault + (action list \<times> AsrClient)" where
  "wait_for lib c [] = Inr ([], c)"
| "wait_for lib c (ev # evs) =
     (if connected_notify c then Inr ([], c)
      else bindf (handle_event lib c ev) (\<lambda>(acts, c').
           bindf (wait_for lib c' evs) (\<lambda>(acts', c'').
             Inr (acts @ acts', c''))))"

definition sync_connect ::
  "library \<Rightarrow> AsrClient \<Rightarrow> connect_setup \<Rightarrow> socket_event list
     \<Rightarrow> fault + (bool \<times> action list \<times> AsrClient)" where
  "sync_connect lib c setup evs =
     (let c1 = snd (connect lib (c\<lparr>use_sync_connect := True\<rparr>) setup)
      in bindf (wait_for lib c1 evs) (\<lambda>(acts, c2). Inr (connected c2, acts, c2)))"

text \<open>
  \<open>close\<close> asks the connection for a normal closure and returns the value of the
  library's error code (the argument \<open>ec\<close>). The destructor calls \<open>close\<close> first.
\<close>

definition close :: "AsrClient \<Rightarrow> int \<Rightarrow> fault + (int \<times> action list)" where
  "close c ec =
     (case con c of
        None \<Rightarrow> Inl NullDereference
      | Some _ \<Rightarrow> Inr (ec, [ConClose]))"

definition destroy_AsrClient :: "AsrClient \<Rightarrow> int \<Rightarrow> fault + action list" where
  "destroy_AsrClient c ec = bindf (close c ec) (\<lambda>(r, acts). Inr acts)"

section \<open>The recognizer (volcenginerecognizer.cpp)\<close>

record VolcengineRecognizer =
  isReady :: bool
  appId :: string
  accessToken :: string
  secretKey :: string
  clusterName :: string
  apiEndpoint :: string
  authType :: int
  asrClient :: "AsrClient option"
  callbackAdapter :: "AsrClientAdapter option"

definition new_VolcengineRecognizer :: VolcengineRecognizer where
  "new_VolcengineRecognizer =
     \<lparr> isReady = False, appId = [], accessToken = [], secretKey = [], clusterName = [],
       apiEndpoint = ''wss://openspeech.bytedance.com/api/v2/asr'', authType = 1,
       asrClient = None, callbackAdapter = None \<rparr>"

text \<open>
  \<open>init\<close> on a recognizer that holds no client yet; the arguments are the request id
  and the user agent of the client it creates.
\<close>

definition init :: "VolcengineRecognizer \<Rightarrow> string \<Rightarrow> string \<Rightarrow> bool \<times> VolcengineRecognizer" where
  "init r rid ua =
     (if appId r = [] \<or> accessToken r = [] \<or> clusterName r = [] then (False, r)
      else
        let c = (new_AsrClient rid ua)
                  \<lparr>appid := appId r, token := accessToken r, cluster := clusterName r\<rparr>
        in if authType r = 1 then
             (True, r\<lparr>isReady := True,
                      asrClient := Some (c\<lparr>auth_type := TOKEN, audio_format := ''raw'',
                                           channels := 1, sample_rate := 16000, bits := 16\<rparr>)\<rparr>)
           else if authType r = 2 \<and> secretKey r \<noteq> [] then
             (True, r\<lparr>isReady := True,
                      asrClient := Some (c\<lparr>auth_type := SIGNATURE, sk := secretKey r,
                                           audio_format := ''raw'', channels := 1,
                                           sample_rate := 16000, bits := 16\<rparr>)\<rparr>)
           else (False, r\<lparr>asrClient := Some c\<rparr>))"

text \<open>
  \<open>recognize\<close>. The two callbacks are given by whether they are non-empty; the rest of
  the arguments is what the outside answers: the set-up of the connection, the events
  handled during the wait, and the error codes of the send and of the close.
\<close>

definition recognize ::
  "library \<Rightarrow> VolcengineRecognizer \<Rightarrow> string \<Rightarrow> bool \<Rightarrow> bool \<Rightarrow> connect_setup
     \<Rightarrow> socket_event list \<Rightarrow> int \<Rightarrow> int \<Rightarrow> fault + (action list \<times> VolcengineRecognizer)" where
  "recognize lib r audioData onResult onError setup evs send_ec close_ec =
     (if \<not> isReady r then
        Inr ((if onError then [OnError ''Recognizer not initialized''] else []), r)
      else if audioData = [] then
        Inr ((if onError then [OnError ''Empty audio data''] else []), r)
      else
        case asrClient r of
          None \<Rightarrow> Inl NullDereference
        | Some c \<Rightarrow>
            let adapter = \<lparr>has_onResult = onResult, has_onError = onError\<rparr>;
                r1 = r\<lparr>callbackAdapter := Some adapter\<rparr>
            in bindf (sync_connect lib (c\<lparr>asr_callback := Some adapter\<rparr>) setup evs)
                 (\<lambda>(connected, acts, c2).
                    if \<not> connected then
                      Inr (acts @ (if onError
                                   then [OnError ''Failed to connect to Volcengine API'']
                                   else []),
                           r1\<lparr>asrClient := Some c2\<rparr>)
                    else
                      bindf (send_audio lib c2 audioData True send_ec) (\<lambda>(ret, sent).
                      bindf (close c2 close_ec) (\<lambda>(cret, closed).
                        Inr (acts @ sent
                               @ (if ret \<noteq> 0 \<and> onError
                                  then [OnError ''Failed to send audio data''] else [])
                               @ closed,
                             r1\<lparr>asrClient := Some c2\<rparr>)))))"

text \<open>
  A whole session: the call of \<open>recognize\<close>, then the events that the I/O thread
  handles after \<open>recognize\<close> has returned.
\<close>

definition session ::
  "library \<Rightarrow> VolcengineRecognizer \<Rightarrow> string \<Rightarrow> bool \<Rightarrow> bool \<Rightarrow> connect_setup
     \<Rightarrow> socket_event list \<Rightarrow> int \<Rightarrow> int \<Rightarrow> socket_event list \<Rightarrow> fault + action list" where
  "session lib r audioData onResult onError setup evs send_ec close_ec later =
     bindf (recognize lib r audioData onResult onError setup evs send_ec close_ec)
       (\<lambda>(acts, r').
          case asrClient r' of
            None \<Rightarrow> Inr acts
          | Some c \<Rightarrow> bindf (run_events lib c later) (\<lambda>(acts', c'). Inr (acts @ acts')))"



section \<open>Sample data\<close>

text \<open>
  Two server payloads, a configured recognizer and the request it sends, with their
  gzip streams, and one HMAC test vector (RFC 4231, case 2). \<open>ref_lib\<close> is the table
  of these input/output pairs of the libraries; it is what the model is run with on
  the sample frames below. Outside the table decompression and parsing fail, and the
  other functions return the empty string.
\<close>

definition bad_request_text :: string where
  \<open>bad_request_text = ''{"message":"bad request"}''\<close>

definition bad_request_gz :: string where
  "bad_request_gz =
     [CHR 0x1F, CHR 0x8B, CHR 0x08, CHR 0x00, CHR 0x00, CHR 0x00, CHR 0x00, CHR 0x00,
      CHR 0x02, CHR 0x03, CHR 0xAB, CHR 0x56, CHR 0xCA, CHR 0x4D, CHR 0x2D, CHR 0x2E,
      CHR 0x4E, CHR 0x4C, CHR 0x4F, CHR 0x55, CHR 0xB2, CHR 0x52, CHR 0x4A, CHR 0x4A,
      CHR 0x4C, CHR 0x51, CHR 0x28, CHR 0x4A, CHR 0x2D, CHR 0x2C, CHR 0x4D, CHR 0x2D,
      CHR 0x2E, CHR 0x51, CHR 0xAA, CHR 0x05, CHR 0x00, CHR 0xE9, CHR 0xD4, CHR 0x74,
      CHR 0xDF, CHR 0x19, CHR 0x00, CHR 0x00, CHR 0x00]"

definition ni_hao :: string where
  "ni_hao = [CHR 0xE4, CHR 0xBD, CHR 0xA0, CHR 0xE5, CHR 0xA5, CHR 0xBD]"

definition result_text :: string where
  \<open>result_text = ''{"result":"'' @ ni_hao @ ''","sequence":-1}''\<close>

definition result_gz :: string where
  "result_gz =
     [CHR 0x1F, CHR 0x8B, CHR 0x08, CHR 0x00, CHR 0x00, CHR 0x00, CHR 0x00, CHR 0x00,
      CHR 0x02, CHR 0x03, CHR 0xAB, CHR 0x56, CHR 0x2A, CHR 0x4A, CHR 0x2D, CHR 0x2E,
      CHR 0xCD, CHR 0x29, CHR 0x51, CHR 0xB2, CHR 0x52, CHR 0x7A, CHR 0xB2, CHR 0x77,
      CHR 0xC1, CHR 0xD3, CHR 0xA5, CHR 0x7B, CHR 0x95, CHR 0x74, CHR 0x94, CHR 0x8A,
      CHR 0x53, CHR 0x0B, CHR 0x4B, CHR 0x53, CHR 0xF3, CHR 0x92, CHR 0x53, CHR 0x95,
      CHR 0xAC, CHR 0x74, CHR 0x0D, CHR 0x6B, CHR 0x01, CHR 0x6A, CHR 0xFB, CHR 0x39,
      CHR 0x1C, CHR 0x21, CHR 0x00, CHR 0x00, CHR 0x00]"

definition sample_audio :: string where
  "sample_audio = [CHR 0x00, CHR 0x00, CHR 0x01, CHR 0x00]"

definition sample_audio_gz :: string where
  "sample_audio_gz =
     [CHR 0x1F, CHR 0x8B, CHR 0x08, CHR 0x00, CHR 0x00, CHR 0x00, CHR 0x00, CHR 0x00,
      CHR 0x02, CHR 0x03, CHR 0x63, CHR 0x60, CHR 0x60, CHR 0x64, CHR 0x00, CHR 0x00,
      CHR 0x5D, CHR 0xEE, CHR 0x5F, CHR 0x38, CHR 0x04, CHR 0x00, CHR 0x00, CHR 0x00]"

definition sample_recognizer :: VolcengineRecognizer where
  "sample_recognizer =
     snd (init (new_VolcengineRecognizer\<lparr>appId := ''a1'', accessToken := ''t1'',
                                          clusterName := ''c1''\<rparr>)
            ''6f1d2c3a-0b4e-4c5d-8e9f-a1b2c3d4e5f6'' ''WebSocket++/0.8.2'')"

definition sample_connection :: connection where
  "sample_connection =
     \<lparr> resource = ''/api/v2/asr'', host_port = ''openspeech.bytedance.com:443'',
       request_headers = [] \<rparr>"

definition sample_request :: json where
  "sample_request = JObject
     [ (''app'', JObject
          [ (''appid'', JString ''a1''), (''cluster'', JString ''c1''),
            (''token'', JString ''t1'') ]),
       (''user'', JObject [ (''uid'', JString ''fcitx5-asr'') ]),
       (''request'', JObject
          [ (''reqid'', JString ''6f1d2c3a-0b4e-4c5d-8e9f-a1b2c3d4e5f6''),
            (''nbest'', JInteger 1),
            (''workflow'', JString ''audio_in,resample,partition,vad,fe,decode''),
            (''show_language'', JBool False),
            (''show_utterances'', JBool False),
            (''result_type'', JString ''full''),
            (''sequence'', JInteger 1) ]),
       (''audio'', JObject
          [ (''format'', JString ''raw''), (''rate'', JInteger 16000),
            (''language'', JString ''zh-CN''), (''bits'', JInteger 16),
            (''channel'', JInteger 1), (''codec'', JString ''raw'') ]) ]"

definition sample_request_text :: string where
  \<open>sample_request_text =
     ''{"app":{"appid":"a1","cluster":"c1","token":"t1"},''
     @ ''"audio":{"bits":16,"channel":1,"codec":"raw","format":"raw",''
     @ ''"language":"zh-CN","rate":16000},''
     @ ''"request":{"nbest":1,"reqid":"6f1d2c3a-0b4e-4c5d-8e9f-a1b2c3d4e5f6",''
     @ ''"result_type":"full","sequence":1,"show_language":false,''
     @ ''"show_utterances":false,''
     @ ''"workflow":"audio_in,resample,partition,vad,fe,decode"},''
     @ ''"user":{"uid":"fcitx5-asr"}}''\<close>

definition sample_request_gz :: string where
  "sample_request_gz =
     [CHR 0x1F, CHR 0x8B, CHR 0x08, CHR 0x00, CHR 0x00, CHR 0x00, CHR 0x00, CHR 0x00,
      CHR 0x02, CHR 0x03, CHR 0x45, CHR 0x90, CHR 0x41, CHR 0x6E, CHR 0xC4, CHR 0x20,
      CHR 0x0C, CHR 0x45, CHR 0xEF, CHR 0xC2, CHR 0x1A, CHR 0xA4, CHR 0xD0, CHR 0x26,
      CHR 0x51, CHR 0x9B, CHR 0x6D, CHR 0xF7, CHR 0xBD, CHR 0x42, CHR 0xE4, CHR 0x80,
      CHR 0x99, CHR 0x41, CHR 0xC3, CHR 0x40, CHR 0x0A, CHR 0xA6, CHR 0x69, CHR 0x1B,
      CHR 0xE5, CHR 0xEE, CHR 0x35, CHR 0x51, CHR 0x35, CHR 0x5D, CHR 0xE1, CHR 0xFF,
      CHR 0x64, CHR 0xBE, CHR 0xED, CHR 0xBF, CHR 0x0B, CHR 0x58, CHR 0x57, CHR 0x31,
      CHR 0xED, CHR 0xED, CHR 0xF1, CHR 0x56, CHR 0x4C, CHR 0x02, CHR 0xB4, CHR 0x90,
      CHR 0xC2, CHR 0x84, CHR 0x5A, CHR 0x08, CHR 0x33, CHR 0x4B, CHR 0xD3, CHR 0x24,
      CHR 0xA5, CHR 0x1B, CHR 0x46, CHR 0x16, CHR 0xA4, CHR 0xC5, CHR 0x21, CHR 0x05,
      CHR 0x54, CHR 0xEB, CHR 0x53, CHR 0xFB, CHR 0xB2, CHR 0x78, CHR 0x2A, CHR 0x62,
      CHR 0xD2, CHR 0x23, CHR 0xF7, CHR 0x5F, CHR 0x21, CHR 0x46, CHR 0x0C, CHR 0x2C,
      CHR 0xB8, CHR 0x4E, CHR 0x16, CHR 0x0D, CHR 0x37, CHR 0x67, CHR 0xD8, CHR 0xF8,
      CHR 0xAB, CHR 0x4B, CHR 0xF9, CHR 0x0E, CHR 0xF4, CHR 0x90, CHR 0x01, CHR 0xE2,
      CHR 0xA5, CHR 0xC2, CHR 0x05, CHR 0x19, CHR 0xFC, CHR 0x5C, CHR 0xD5, CHR 0xDB,
      CHR 0x3B, CHR 0xA3, CHR 0x0C, CHR 0x84, CHR 0xCD, CHR 0xA5, CHR 0xEB, CHR 0x3A,
      CHR 0x36, CHR 0xCF, CHR 0xF8, CHR 0x51, CHR 0xB1, CHR 0x50, CHR 0xB3, CHR 0x8F,
      CHR 0xCB, CHR 0x59, CHR 0xE8, CHR 0x13, CHR 0x9E, CHR 0xBB, CHR 0x8D, CHR 0x4E,
      CHR 0xDB, CHR 0x27, CHR 0xF3, CHR 0x0C, CHR 0xAA, CHR 0x5B, CHR 0x7A, CHR 0x54,
      CHR 0xBD, CHR 0x19, CHR 0xAC, CHR 0x7A, CHR 0xC1, CHR 0x57, CHR 0xA7, CHR 0x40,
      CHR 0x2F, CHR 0x8C, CHR 0x6D, CHR 0x8F, CHR 0x83, CHR 0x1B, CHR 0x9B, CHR 0x23,
      CHR 0x96, CHR 0x1A, CHR 0x68, CHR 0xA6, CHR 0xEF, CHR 0xB5, CHR 0xCD, CHR 0x71,
      CHR 0x35, CHR 0x04, CHR 0x86, CHR 0xA5, CHR 0x19, CHR 0x47, CHR 0x83, CHR 0xA7,
      CHR 0x61, CHR 0xB9, CHR 0xA6, CHR 0x6D, CHR 0xFE, CHR 0xDF, CHR 0xC5, CHR 0x41,
      CHR 0x28, CHR 0xF8, CHR 0x47, CHR 0x2B, CHR 0xF1, CHR 0xE1, CHR 0xC0, CHR 0x8D,
      CHR 0xE5, CHR 0xC1, CHR 0xB7, CHR 0x94, CHR 0x6F, CHR 0x2E, CHR 0xA4, CHR 0xAD,
      CHR 0xA5, CHR 0xD3, CHR 0x6E, CHR 0x9F, CHR 0x7D, CHR 0x94, CHR 0x3C, CHR 0x03,
      CHR 0xEE, CHR 0x6B, CHR 0x40, CHR 0xB9, CHR 0x42, CHR 0x26, CHR 0x4F, CHR 0x3E,
      CHR 0x45, CHR 0xF9, CHR 0x09, CHR 0x56, CHR 0x3A, CHR 0x94, CHR 0x7C, CHR 0x3D,
      CHR 0x27, CHR 0xD0, CHR 0x82, CHR 0xAA, CHR 0xA5, CHR 0x45, CHR 0xB8, CHR 0x8B,
      CHR 0x7A, CHR 0x2E, CHR 0xEF, CHR 0x8C, CHR 0xA7, CHR 0xAF, CHR 0x41, CHR 0x41,
      CHR 0xC9, CHR 0xE2, CHR 0x38, CHR 0x7E, CHR 0x01, CHR 0x7B, CHR 0x73, CHR 0x22,
      CHR 0xFB, CHR 0x77, CHR 0x01, CHR 0x00, CHR 0x00]"

definition rfc4231_mac :: string where
  "rfc4231_mac =
     [CHR 0x5B, CHR 0xDC, CHR 0xC1, CHR 0x46, CHR 0xBF, CHR 0x60, CHR 0x75, CHR 0x4E,
      CHR 0x6A, CHR 0x04, CHR 0x24, CHR 0x26, CHR 0x08, CHR 0x95, CHR 0x75, CHR 0xC7,
      CHR 0x5A, CHR 0x00, CHR 0x3F, CHR 0x08, CHR 0x9D, CHR 0x27, CHR 0x39, CHR 0x83,
      CHR 0x9D, CHR 0xEC, CHR 0x58, CHR 0xB9, CHR 0x64, CHR 0xEC, CHR 0x38, CHR 0x43]"

definition ref_lib :: library where
  "ref_lib =
     \<lparr> gzip = (\<lambda>d. case map_of [(sample_audio, sample_audio_gz),
                                  (sample_request_text, sample_request_gz),
                                  (bad_request_text, bad_request_gz),
                                  (result_text, result_gz)] d of
                     Some z \<Rightarrow> z | None \<Rightarrow> []),
       gunzip = map_of [(bad_request_gz, bad_request_text), (result_gz, result_text),
                        (sample_audio_gz, sample_audio),
                        (sample_request_gz, sample_request_text)],
       json_parse = (\<lambda>t. case map_of
                              [(bad_request_text,
                                JObject [(''message'', JString ''bad request'')]),
                               (result_text,
                                JObject [(''result'', JString ni_hao),
                                         (''sequence'', JInteger (- 1))]),
                               (sample_request_text, sample_request)] t of
                           Some j \<Rightarrow> Inr j | None \<Rightarrow> Inl ''syntax error''),
       json_dump = (\<lambda>j. case map_of [(sample_request, sample_request_text)] j of
                          Some t \<Rightarrow> t | None \<Rightarrow> []),
       type_error_what = (\<lambda>j. ''type must be string''),
       hmac_sha256 = (\<lambda>key d. case map_of
                                  [((''Jefe'', ''what do ya want for nothing?''), rfc4231_mac)]
                                  (key, d) of
                                Some m \<Rightarrow> m | None \<Rightarrow> []),
       base64_encode = (\<lambda>d. case map_of
                                [(rfc4231_mac, ''W9zBRr9gdU5qBCQmCJV1x1oAPwidJzmDnexYuWTsOEM='')] d of
                              Some t \<Rightarrow> t | None \<Rightarrow> []) \<rparr>"

text \<open>
  The frame of the error scenario: header (version 1, header size 1, error message,
  JSON, gzip), error code 45000000, payload length 45, payload. The same frame with
  no compression carries the JSON text as it is. The terminal frame is a full server
  response with the second payload.
\<close>

definition error_frame :: string where
  "error_frame =
     [CHR 0x11, CHR 0xF0, CHR 0x11, CHR 0x00, CHR 0x02, CHR 0xAE, CHR 0xA5, CHR 0x40,
      CHR 0x00, CHR 0x00, CHR 0x00, CHR 0x2D] @ bad_request_gz"

definition error_frame_plain :: string where
  "error_frame_plain =
     [CHR 0x11, CHR 0xF0, CHR 0x10, CHR 0x00, CHR 0x02, CHR 0xAE, CHR 0xA5, CHR 0x40,
      CHR 0x00, CHR 0x00, CHR 0x00, CHR 0x19] @ bad_request_text"

definition terminal_frame :: string where
  "terminal_frame =
     [CHR 0x11, CHR 0x90, CHR 0x11, CHR 0x00, CHR 0x00, CHR 0x00, CHR 0x00, CHR 0x35]
     @ result_gz"

text \<open>A client with an adapter that holds both callbacks, as \<open>recognize\<close> sets it.\<close>

definition sample_client :: AsrClient where
  "sample_client =
     (new_AsrClient ''6f1d2c3a-0b4e-4c5d-8e9f-a1b2c3d4e5f6'' ''WebSocket++/0.8.2'')
       \<lparr>asr_callback := Some \<lparr>has_onResult = True, has_onError = True\<rparr>\<rparr>"

section \<open>Certificate verification\<close>

text \<open>
  A certificate, as far as the two name checks read it: the entries of the
  subject-alternative-name extension (\<open>None\<close> when the extension is absent) and the
  first common-name entry of the subject (\<open>None\<close> when there is none). An ASN.1
  string is its bytes; OpenSSL keeps a NUL after them, so \<^const>\<open>strlen\<close> stops at
  the first NUL byte or at the end.
\<close>

datatype general_name = GEN_DNS string | GEN_OTHER

record X509 =
  subject_alt_name :: "general_name list option"
  subject_common_name :: "string option"

definition tolower :: "char \<Rightarrow> char" where
  "tolower ch =
     (if 65 \<le> (of_char ch :: nat) \<and> (of_char ch :: nat) \<le> 90
      then char_of ((of_char ch :: nat) + 32) else ch)"

text \<open>\<open>strcasecmp(a, b) == 0\<close> on two C strings.\<close>

definition strcasecmp_eq :: "string \<Rightarrow> string \<Rightarrow> bool" where
  "strcasecmp_eq a b = (map tolower (c_str a) = map tolower (c_str b))"

text \<open>
  The loop of \<open>verify_subject_alternative_name\<close>: \<open>continue\<close> on an entry that is not
  a DNS name, \<open>break\<close> on an embedded NUL, and otherwise \<open>result\<close> is overwritten.
\<close>

fun san_loop :: "string \<Rightarrow> general_name list \<Rightarrow> bool \<Rightarrow> bool" where
  "san_loop hostname [] result = result"
| "san_loop hostname (GEN_OTHER # rest) result = san_loop hostname rest result"
| "san_loop hostname (GEN_DNS dns_name # rest) result =
     (if length dns_name \<noteq> strlen dns_name then result
      else san_loop hostname rest (strcasecmp_eq hostname dns_name))"

definition verify_subject_alternative_name :: "string \<Rightarrow> X509 \<Rightarrow> bool" where
  "verify_subject_alternative_name hostname cert =
     (case subject_alt_name cert of
        None \<Rightarrow> False
      | Some san_names \<Rightarrow> san_loop hostname san_names False)"

definition verify_common_name :: "string \<Rightarrow> X509 \<Rightarrow> bool" where
  "verify_common_name hostname cert =
     (case subject_common_name cert of
        None \<Rightarrow> False
      | Some common_name_str \<Rightarrow>
          if length common_name_str \<noteq> strlen common_name_str then False
          else strcasecmp_eq hostname common_name_str)"

definition verify_certificate :: "string \<Rightarrow> bool \<Rightarrow> int \<Rightarrow> X509 \<Rightarrow> bool" where
  "verify_certificate hostname preverified depth cert =
     (if depth = 0 \<and> preverified then
        (if verify_subject_alternative_name hostname cert then True
         else if verify_common_name hostname cert then True
         else True)
      else True)"

section \<open>Big-endian words\<close>

lemma word_of_nat_unat_mod256:
  "(word_of_nat (unat (v::32 word) mod 256) :: 32 word) = take_bit 8 v"
proof -
  have "unat v mod 256 = unat (take_bit 8 v)"
    by (simp add: take_bit_eq_mod unat_mod)
  then show ?thesis by simp
qed

lemma word_bytes_concat:
  "push_bit 24 (take_bit 8 (drop_bit 24 w)) OR push_bit 16 (take_bit 8 (drop_bit 16 w))
     OR push_bit 8 (take_bit 8 (drop_bit 8 w)) OR take_bit 8 w = (w::32 word)"
  (is "?l = w")
proof (rule bit_word_eqI)
  fix n
  assume "n < LENGTH(32)"
  then have "n < 32" by simp
  then consider "n < 8" | "8 \<le> n" "n < 16" | "16 \<le> n" "n < 24" | "24 \<le> n" "n < 32"
    by linarith
  then show "bit ?l n = bit w n"
    by cases (auto simp add: bit_simps)
qed

lemma u32_of_be32:
  "u32_of_bytes (char_of (unat (drop_bit 24 w))) (char_of (unat (drop_bit 16 w)))
     (char_of (unat (drop_bit 8 w))) (char_of (unat w)) = w"
  using word_bytes_concat [of w]
  by (simp add: u32_of_bytes_def word_of_nat_unat_mod256)

lemma be32_bytes:
  "be32 w = [char_of (unat (drop_bit 24 w)), char_of (unat (drop_bit 16 w)),
             char_of (unat (drop_bit 8 w)), char_of (unat w)]"
  by (simp add: be32_def)

lemma length_be32: "length (be32 w) = 4"
  by (simp add: be32_def)

lemma read_be32_append: "length h = n \<Longrightarrow> read_be32 (h @ be32 w @ r) n = Inr w"
  by (simp add: read_be32_def data_byte_def be32_bytes nth_append u32_of_be32)

lemma read_be32_append2:
  "length h + 4 = n \<Longrightarrow> read_be32 (h @ be32 v @ be32 w @ r) n = Inr w"
  using read_be32_append [of "h @ be32 v" n w r] by (simp add: length_be32)

lemma substr_append: "length h = n \<Longrightarrow> substr (h @ z) n (length z) = Inr z"
  by (simp add: substr_def)

lemma substr_append1:
  "length h + 4 = n \<Longrightarrow> substr (h @ be32 v @ z) n (length z) = Inr z"
  using substr_append [of "h @ be32 v" n z] by (simp add: length_be32)

lemma substr_append2:
  "length h + 8 = n \<Longrightarrow> substr (h @ be32 v @ be32 w @ z) n (length z) = Inr z"
  using substr_append [of "h @ be32 v @ be32 w" n z] by (simp add: length_be32)

lemma str_at_append: "i < length h \<Longrightarrow> str_at (h @ r) i = Inr (h ! i)"
  by (simp add: str_at_def nth_append)

lemma unat_length32: "n < 2 ^ 32 \<Longrightarrow> unat (word_of_nat n :: 32 word) = n"
  by (simp add: unat_of_nat)

lemma length32_pos:
  "z \<noteq> [] \<Longrightarrow> length z < 2 ^ 32 \<Longrightarrow> (0 :: 32 word) < word_of_nat (length z)"
  by (simp add: word_less_nat_alt unat_length32)

lemma be32_45: "be32 45 = [CHR 0x00, CHR 0x00, CHR 0x00, CHR 0x2D]"
  by (simp add: be32_def char_of_eq_iff)

lemma be32_53: "be32 53 = [CHR 0x00, CHR 0x00, CHR 0x00, CHR 0x35]"
  by (simp add: be32_def char_of_eq_iff)

lemma be32_code: "be32 45000000 = [CHR 0x02, CHR 0xAE, CHR 0xA5, CHR 0x40]"
  by (simp add: be32_def char_of_eq_iff)

section \<open>Decoding a frame that is put together from its parts\<close>

lemma no_payload_object:
  "code_not_success JNull = False" "sequence_negative JNull = False"
  by (simp_all add: code_not_success_def sequence_negative_def)

text \<open>
  An error frame with a JSON, gzip header \<open>h\<close>, an error code and a non-empty
  compressed payload \<open>z\<close>: what \<open>parse_response\<close> returns is decided by the text that
  \<open>z\<close> decompresses to.
\<close>

lemma parse_response_error_frame:
  assumes h3: "3 \<le> length h"
    and hl: "push_bit 2 (of_char (h ! 0) AND (15::nat)) = length h"
    and ty: "drop_bit 4 (of_char (h ! 1) AND (240::nat)) = 15"
    and ser: "drop_bit 4 (of_char (h ! 2) AND (240::nat)) = 1"
    and comp: "of_char (h ! 2) AND (15::nat) = 1"
    and z: "z \<noteq> []" "length z < 2 ^ 32"
    and gz: "gunzip lib z = Some plain"
  shows "parse_response lib c (h @ be32 error_code @ be32 (word_of_nat (length z)) @ z) pm =
     (if plain = [] then Inr (0, [], c)
      else case json_parse lib plain of
             Inl w \<Rightarrow> Inr (- 1, pm, c)
           | Inr j \<Rightarrow>
               if code_not_success j then Inr (- 1, plain, c)
               else if sequence_negative j then Inr (0, plain, c\<lparr>recv_last_msg := True\<rparr>)
               else Inr (0, plain, c))"
proof -
  let ?f = "h @ be32 error_code @ be32 (word_of_nat (length z)) @ z"
  have i: "0 < length h" "1 < length h" "2 < length h"
    using h3 by linarith+
  have s: "str_at ?f 0 = Inr (h ! 0)" "str_at ?f 1 = Inr (h ! 1)" "str_at ?f 2 = Inr (h ! 2)"
    by (rule str_at_append, rule i)+
  have r1: "read_be32 ?f (length h) = Inr error_code"
    by (rule read_be32_append) simp
  have r2: "read_be32 ?f (length h + 4) = Inr (word_of_nat (length z))"
    by (rule read_be32_append2) simp
  have r3: "substr ?f (length h + 8) (length z) = Inr z"
    by (rule substr_append2) simp
  have pos: "(0 :: 32 word) < word_of_nat (length z)"
    using z by (rule length32_pos)
  have un: "unat (word_of_nat (length z) :: 32 word) = length z"
    using z(2) by (rule unat_length32)
  have ne: "(15::nat) \<noteq> 9" "(15::nat) \<noteq> 11"
    by simp_all
  show ?thesis
    unfolding parse_response_def s bindf_def sum.case Let_def hl ty ser comp
      MessageType_val.simps MessageCompress_val.simps MessageSerial_val.simps
    apply (simp only: ne if_False if_True refl r1 r2 r3 sum.case option.case prod.case pos un gz
        gzip_decompress_def bindf_def simp_thms)
    apply (cases "plain = []")
     apply (simp only: if_True if_False no_payload_object sum.case simp_thms list.simps)
    apply (simp only: if_True if_False no_payload_object sum.case simp_thms list.simps)
    done
qed

text \<open>The same for a full server response, which has no error code.\<close>

lemma parse_response_full_frame:
  assumes h3: "3 \<le> length h"
    and hl: "push_bit 2 (of_char (h ! 0) AND (15::nat)) = length h"
    and ty: "drop_bit 4 (of_char (h ! 1) AND (240::nat)) = 9"
    and ser: "drop_bit 4 (of_char (h ! 2) AND (240::nat)) = 1"
    and comp: "of_char (h ! 2) AND (15::nat) = 1"
    and z: "z \<noteq> []" "length z < 2 ^ 32"
    and gz: "gunzip lib z = Some plain"
  shows "parse_response lib c (h @ be32 (word_of_nat (length z)) @ z) pm =
     (if plain = [] then Inr (0, [], c)
      else case json_parse lib plain of
             Inl w \<Rightarrow> Inr (- 1, pm, c)
           | Inr j \<Rightarrow>
               if code_not_success j then Inr (- 1, plain, c)
               else if sequence_negative j then Inr (0, plain, c\<lparr>recv_last_msg := True\<rparr>)
               else Inr (0, plain, c))"
proof -
  let ?f = "h @ be32 (word_of_nat (length z)) @ z"
  have i: "0 < length h" "1 < length h" "2 < length h"
    using h3 by linarith+
  have s: "str_at ?f 0 = Inr (h ! 0)" "str_at ?f 1 = Inr (h ! 1)" "str_at ?f 2 = Inr (h ! 2)"
    by (rule str_at_append, rule i)+
  have r1: "read_be32 ?f (length h) = Inr (word_of_nat (length z))"
    using read_be32_append [of h "length h" "word_of_nat (length z)" z] by simp
  have r3: "substr ?f (length h + 4) (length z) = Inr z"
    by (rule substr_append1) simp
  have pos: "(0 :: 32 word) < word_of_nat (length z)"
    using z by (rule length32_pos)
  have un: "unat (word_of_nat (length z) :: 32 word) = length z"
    using z(2) by (rule unat_length32)
  show ?thesis
    unfolding parse_response_def s bindf_def sum.case Let_def hl ty ser comp
      MessageType_val.simps MessageCompress_val.simps MessageSerial_val.simps
    apply (simp only: if_False if_True refl r1 r3 sum.case option.case prod.case pos un gz
        gzip_decompress_def bindf_def simp_thms)
    apply (cases "plain = []")
     apply (simp only: if_True if_False no_payload_object sum.case simp_thms list.simps)
    apply (simp only: if_True if_False no_payload_object sum.case simp_thms list.simps)
    done
qed

section \<open>The sample data\<close>

lemma gunzip_bad_request: "gunzip ref_lib bad_request_gz = Some bad_request_text"
  by (simp add: ref_lib_def)

lemma gunzip_result: "gunzip ref_lib result_gz = Some result_text"
  by (simp add: ref_lib_def bad_request_gz_def result_gz_def)

lemma json_parse_bad_request:
  "json_parse ref_lib bad_request_text = Inr (JObject [(''message'', JString ''bad request'')])"
  by (simp add: ref_lib_def)

lemma json_parse_result:
  "json_parse ref_lib result_text
     = Inr (JObject [(''result'', JString ni_hao), (''sequence'', JInteger (- 1))])"
  by (simp add: ref_lib_def bad_request_text_def result_text_def)

lemma length_bad_request_gz: "length bad_request_gz = 45"
  by (simp add: bad_request_gz_def)

lemma length_result_gz: "length result_gz = 53"
  by (simp add: result_gz_def)

lemma bad_request_text_not_empty: "bad_request_text \<noteq> []"
  by (simp add: bad_request_text_def)

lemma result_text_not_empty: "result_text \<noteq> []"
  by (simp add: result_text_def)

lemma bad_request_gz_not_empty: "bad_request_gz \<noteq> []"
  by (simp add: bad_request_gz_def)

lemma result_gz_not_empty: "result_gz \<noteq> []"
  by (simp add: result_gz_def)

lemma sample_client_callback:
  "asr_callback sample_client = Some \<lparr>has_onResult = True, has_onError = True\<rparr>"
  by (simp add: sample_client_def)

lemma error_frame_parts:
  "error_frame = [CHR 0x11, CHR 0xF0, CHR 0x11, CHR 0x00] @ be32 45000000
                   @ be32 (word_of_nat (length bad_request_gz)) @ bad_request_gz"
  by (simp add: error_frame_def be32_code be32_45 length_bad_request_gz)

lemma terminal_frame_parts:
  "terminal_frame = [CHR 0x11, CHR 0x90, CHR 0x11, CHR 0x00]
                      @ be32 (word_of_nat (length result_gz)) @ result_gz"
  by (simp add: terminal_frame_def be32_53 length_result_gz)

lemma parse_response_error_frame_sample:
  "parse_response ref_lib c error_frame [] = Inr (0, bad_request_text, c)"
  unfolding error_frame_parts
  by (subst parse_response_error_frame [where plain = bad_request_text])
     (simp_all add: gunzip_bad_request json_parse_bad_request length_bad_request_gz
        bad_request_gz_not_empty bad_request_text_not_empty
        code_not_success_def sequence_negative_def)

lemma parse_response_error_frame_plain:
  "parse_response lib c error_frame_plain [] = Inr (0, [], c)"
  by (simp add: parse_response_def bindf_def str_at_def read_be32_def data_byte_def
      u32_of_bytes_def error_frame_plain_def bad_request_text_def
      code_not_success_def sequence_negative_def Let_def)

lemma parse_response_terminal_frame:
  "parse_response ref_lib c terminal_frame []
     = Inr (0, result_text, c\<lparr>recv_last_msg := True\<rparr>)"
  unfolding terminal_frame_parts
  by (subst parse_response_full_frame [where plain = result_text])
     (simp_all add: gunzip_result json_parse_result length_result_gz
        result_gz_not_empty result_text_not_empty
        code_not_success_def sequence_negative_def)

lemma on_message_error_frame:
  "on_message ref_lib sample_client error_frame
     = Inr ([CbMessage bad_request_text], sample_client)"
  by (simp add: on_message_def parse_response_error_frame_sample bindf_def
      sample_client_callback adapter_on_message_def json_parse_bad_request)

lemma on_message_terminal_frame:
  "on_message ref_lib sample_client terminal_frame
     = Inr ([CbMessage result_text, OnResult ni_hao True],
            sample_client\<lparr>recv_last_msg := True\<rparr>)"
  by (simp add: on_message_def parse_response_terminal_frame bindf_def
      sample_client_callback adapter_on_message_def json_parse_result)

text \<open>
  The request that the sample recognizer's client builds, and its audio frame for the
  sample audio, on the table: header, length, and the recorded gzip stream.
\<close>

lemma length_sample_request_gz: "length sample_request_gz = 261"
  by (simp add: sample_request_gz_def)

lemma json_dump_sample_request: "json_dump ref_lib sample_request = sample_request_text"
  by (simp add: ref_lib_def)

lemma gzip_sample_request: "gzip ref_lib sample_request_text = sample_request_gz"
  by (simp add: ref_lib_def sample_request_text_def sample_audio_def)

lemma gzip_sample_audio: "gzip ref_lib sample_audio = sample_audio_gz"
  by (simp add: ref_lib_def)

lemma be32_261: "be32 261 = [CHR 0x00, CHR 0x00, CHR 0x01, CHR 0x05]"
  by (simp add: be32_def char_of_eq_iff)

lemma be32_24: "be32 24 = [CHR 0x00, CHR 0x00, CHR 0x00, CHR 0x18]"
  by (simp add: be32_def char_of_eq_iff)

lemma sample_full_request:
  "map_option (\<lambda>c. full_req_param (construct_param ref_lib c)) (asrClient sample_recognizer)
     = Some ([CHR 0x11, CHR 0x10, CHR 0x11, CHR 0x00, CHR 0x00, CHR 0x00, CHR 0x01, CHR 0x05]
             @ sample_request_gz)"
  by (simp add: sample_recognizer_def init_def new_VolcengineRecognizer_def new_AsrClient_def
      construct_param_def Let_def gzip_compress_def
      json_dump_sample_request [unfolded sample_request_def]
      gzip_sample_request length_sample_request_gz be32_261 char_of_eq_iff)

lemma sample_audio_frame:
  "map_option (\<lambda>c. audio_frame ref_lib c sample_audio True) (asrClient sample_recognizer)
     = Some ([CHR 0x11, CHR 0x22, CHR 0x11, CHR 0x00, CHR 0x00, CHR 0x00, CHR 0x00, CHR 0x18]
             @ sample_audio_gz)"
  by (simp add: sample_recognizer_def init_def new_VolcengineRecognizer_def new_AsrClient_def
      audio_frame_def Let_def gzip_compress_def gzip_sample_audio be32_24 char_of_eq_iff
      sample_audio_gz_def)

section \<open>Connecting and the recognizer\<close>

lemma connect_keeps:
  "connected (snd (connect lib c setup)) = connected c"
  "connected_notify (snd (connect lib c setup)) = connected_notify c"
  "use_sync_connect (snd (connect lib c setup)) = use_sync_connect c"
  "asr_callback (snd (connect lib c setup)) = asr_callback c"
  by (simp_all add: connect_def construct_param_def Let_def split: connect_setup.splits)

lemma connect_created_con:
  "con (snd (connect lib c (Created k)))
     = Some (set_auth_header lib (construct_param lib (c\<lparr>con := Some k\<rparr>)) k)"
  by (simp add: connect_def Let_def)

lemma sync_connect_timeout:
  "sync_connect lib c setup [] =
     Inr (connected c, [], snd (connect lib (c\<lparr>use_sync_connect := True\<rparr>) setup))"
  by (simp add: sync_connect_def Let_def bindf_def connect_keeps)

lemma sync_connect_open:
  assumes "\<not> connected_notify c" and "asr_callback c = Some a"
  shows "sync_connect lib c setup [EvOpen] =
     Inr (True,
          [CbOpen, ConSend (full_req_param (snd (connect lib (c\<lparr>use_sync_connect := True\<rparr>) setup)))],
          (snd (connect lib (c\<lparr>use_sync_connect := True\<rparr>) setup))
            \<lparr>connected_notify := True, connected := True\<rparr>)"
  using assms
  by (simp add: sync_connect_def Let_def bindf_def connect_keeps handle_event_def on_open_def)





lemma sample_recognizer_ready:
  "isReady sample_recognizer"
  "\<exists>c. asrClient sample_recognizer = Some c \<and> \<not> connected_notify c \<and> \<not> connected c
        \<and> con c = None"
  by (simp_all add: sample_recognizer_def init_def new_VolcengineRecognizer_def
      new_AsrClient_def Let_def)

lemma sample_audio_not_empty: "sample_audio \<noteq> []"
  by (simp add: sample_audio_def)










text \<open>
  After a wait that timed out, \<open>recognize\<close> has returned without closing and the
  adapter stays on the pending connection: a fail event that is handled later calls the
  error callback a second time.
\<close>

lemma timeout_then_late_fail:
  assumes "isReady r" and "audioData \<noteq> []" and "asrClient r = Some c"
    and "\<not> connected c"
  shows "session lib r audioData True True setup [] send_ec close_ec [EvFail] =
     Inr [OnError ''Failed to connect to Volcengine API'', CbError ''connection error'',
          OnError ''connection error'']"
  using assms
  by (simp add: session_def recognize_def Let_def bindf_def sync_connect_timeout
      handle_event_def on_error_def adapter_on_error_def connect_keeps)

section \<open>Claims\<close>

text \<open>
  C1, as the code has it. For every error frame with a JSON, gzip header and a
  non-empty compressed payload, \<open>parse_response\<close> returns, with 0 or -1; it returns
  -1 exactly when the decompressed payload is not empty and either does not parse as
  JSON or is an object whose integer \<open>code\<close> is not 1000. The message type and the
  error code of the frame do not enter.
\<close>

theorem error_frame_fails_iff_bad_payload:
  assumes "3 \<le> length h"
    and "push_bit 2 (of_char (h ! 0) AND (15::nat)) = length h"
    and "drop_bit 4 (of_char (h ! 1) AND (240::nat)) = 15"
    and "drop_bit 4 (of_char (h ! 2) AND (240::nat)) = 1"
    and "of_char (h ! 2) AND (15::nat) = 1"
    and "z \<noteq> []" and "length z < 2 ^ 32"
    and "gunzip lib z = Some plain"
  shows "\<exists>ret msg c'.
     parse_response lib c (h @ be32 error_code @ be32 (word_of_nat (length z)) @ z) pm
       = Inr (ret, msg, c')
     \<and> (ret = 0 \<or> ret = - 1)
     \<and> (ret \<noteq> 0) =
         (plain \<noteq> [] \<and> (case json_parse lib plain of Inl w \<Rightarrow> True
                          | Inr j \<Rightarrow> code_not_success j))"
  unfolding parse_response_error_frame [OF assms]
  by (cases "json_parse lib plain") simp_all

theorem error_frame_fails_iff_bad_payload_witness:
  "\<exists>ret msg c'.
     parse_response ref_lib sample_client error_frame [] = Inr (ret, msg, c')
     \<and> (ret = 0 \<or> ret = - 1)
     \<and> (ret \<noteq> 0) =
         (bad_request_text \<noteq> [] \<and> (case json_parse ref_lib bad_request_text of
                                      Inl w \<Rightarrow> True | Inr j \<Rightarrow> code_not_success j))"
proof -
  have h: "3 \<le> length [CHR 0x11, CHR 0xF0, CHR 0x11, CHR 0x00]"
    "push_bit 2 (of_char ([CHR 0x11, CHR 0xF0, CHR 0x11, CHR 0x00] ! 0) AND (15::nat))
       = length [CHR 0x11, CHR 0xF0, CHR 0x11, CHR 0x00]"
    "drop_bit 4 (of_char ([CHR 0x11, CHR 0xF0, CHR 0x11, CHR 0x00] ! 1) AND (240::nat)) = 15"
    "drop_bit 4 (of_char ([CHR 0x11, CHR 0xF0, CHR 0x11, CHR 0x00] ! 2) AND (240::nat)) = 1"
    "of_char ([CHR 0x11, CHR 0xF0, CHR 0x11, CHR 0x00] ! 2) AND (15::nat) = 1"
    by simp_all
  have z: "bad_request_gz \<noteq> []" "length bad_request_gz < 2 ^ 32"
    by (simp_all add: length_bad_request_gz bad_request_gz_not_empty)
  show ?thesis
    using error_frame_fails_iff_bad_payload [OF h z gunzip_bad_request,
        of sample_client 45000000 "[]"]
    by (simp only: error_frame_parts)
qed

text \<open>
  C1 as stated fails: the error frame of the scenario (error code 45000000, payload
  \<open>{"message":"bad request"}\<close>, compressed or not) decodes with return value 0, its
  payload goes to the message callback, and no closure is asked for.
\<close>

theorem error_frame_scenario_returns_zero:
  "parse_response ref_lib sample_client error_frame []
     = Inr (0, bad_request_text, sample_client)
   \<and> on_message ref_lib sample_client error_frame
     = Inr ([CbMessage bad_request_text], sample_client)
   \<and> parse_response ref_lib sample_client error_frame_plain []
     = Inr (0, [], sample_client)"
  by (simp add: parse_response_error_frame_sample on_message_error_frame
      parse_response_error_frame_plain)

text \<open>
  C2. On the terminal frame (a full server response whose JSON has \<open>sequence\<close> -1)
  \<open>on_message\<close> sets \<open>_recv_last_msg\<close> and hands the payload on, but the list of
  actions has no closure request.
\<close>

theorem on_message_terminal_frame_no_close:
  "\<not> isl (on_message ref_lib sample_client terminal_frame)
   \<and> recv_last_msg (snd (projr (on_message ref_lib sample_client terminal_frame)))
   \<and> CbMessage result_text \<in> set (fst (projr (on_message ref_lib sample_client terminal_frame)))
   \<and> ConClose \<notin> set (fst (projr (on_message ref_lib sample_client terminal_frame)))"
  by (simp add: on_message_terminal_frame)




text \<open>
  C4. With signature authentication and the token \<open>a+b/c\<close>, the header that
  \<open>set_auth_header\<close> appends carries \<open>a-b_c\<close> as the access token: the two
  replacements run over the whole header value, not over the base64 text alone.
\<close>

theorem signature_header_rewrites_token:
  \<open>request_headers
     (set_auth_header lib (c\<lparr>auth_type := SIGNATURE, token := ''a+b/c''\<rparr>) k)
   = request_headers k
     @ [(''Authorization'',
         ''HMAC256; access_token="a-b_c"; mac="''
         @ replace_char (CHR ''/'') (CHR ''_'') (replace_char (CHR ''+'') (CHR ''-'')
             (c_str (base64_encode lib (hmac_sha256 lib (sk c)
                (''GET '' @ resource k @ '' HTTP/1.1'' @ [CHR 0x0A] @ user_agent c
                   @ [CHR 0x0A] @ full_req_param c)))))
         @ ''"; h="User-Agent"'')]\<close>
  by (simp add: set_auth_header_def Let_def replace_char_def)

text \<open>
  C5. For every audio byte sequence, the header of the encoded audio frame has message
  type \<open>AUDIO_ONLY_CLIENT_REQUEST\<close>; its flags are
  \<open>NEGATIVE_SEQUENCE_SERVER_ASSGIN\<close> when \<open>is_last\<close> is true and
  \<open>NO_SEQUENCE_NUMBER\<close> when it is false.
\<close>

theorem audio_frame_type_and_flags:
  "frame_message_type (audio_frame lib c audio is_last)
     = MessageType_val AUDIO_ONLY_CLIENT_REQUEST
   \<and> frame_flags (audio_frame lib c audio True)
     = MessageTypeFlag_val NEGATIVE_SEQUENCE_SERVER_ASSGIN
   \<and> frame_flags (audio_frame lib c audio False)
     = MessageTypeFlag_val NO_SEQUENCE_NUMBER"
  by (simp add: audio_frame_def frame_message_type_def frame_flags_def Let_def)



text \<open>
  C8. For every hostname, every certificate and every chain depth (the leaf, depth 0,
  among them), the verification callback returns true on a preverified certificate,
  whether or not a subject alternative name or the common name matches the hostname.
\<close>

theorem verify_certificate_accepts:
  "verify_certificate hostname True depth cert"
  by (simp add: verify_certificate_def)

text \<open>
  C9. On a client that has never connected the connection pointer is null, and
  \<open>close\<close>, which the destructor calls, dereferences it. The client that \<open>init\<close>
  creates for the sample recognizer is such a client.
\<close>

theorem close_before_connect_faults:
  "close (new_AsrClient rid ua) ec = Inl NullDereference
   \<and> destroy_AsrClient (new_AsrClient rid ua) ec = Inl NullDereference
   \<and> map_option (\<lambda>c. destroy_AsrClient c ec) (asrClient sample_recognizer)
       = Some (Inl NullDereference)"
  by (simp add: close_def destroy_AsrClient_def bindf_def new_AsrClient_def
      sample_recognizer_def init_def new_VolcengineRecognizer_def Let_def)

text \<open>
  C10. In every call of \<open>recognize\<close> that gets to the send (the recognizer is ready,
  the audio is not empty, \<open>sync_connect\<close> returned true, and there is a connection),
  what \<open>recognize\<close> does after the wait is: send the audio frame marked as last, report
  a failed send if the error callback is there, and call \<open>close\<close>, whatever the send
  returned. No event of the socket enters between the send and the close.
\<close>

theorem recognize_closes_after_send:
  assumes "isReady r" and "audioData \<noteq> []" and "asrClient r = Some c"
    and "sync_connect lib (c\<lparr>asr_callback :=
           Some \<lparr>has_onResult = onResult, has_onError = onError\<rparr>\<rparr>) setup evs
         = Inr (True, acts, c2)"
    and "con c2 \<noteq> None"
  shows "\<exists>r'. recognize lib r audioData onResult onError setup evs send_ec close_ec
     = Inr (acts @ [ConSend (audio_frame lib c2 audioData True)]
              @ (if send_ec \<noteq> 0 \<and> onError then [OnError ''Failed to send audio data'']
                 else [])
              @ [ConClose], r')"
  using assms
  by (auto simp add: recognize_def Let_def bindf_def send_audio_def close_def)

theorem recognize_closes_after_send_witness:
  "\<exists>acts frame r'.
     recognize ref_lib sample_recognizer sample_audio True True
       (Created sample_connection) [EvOpen] 1 0
       = Inr (acts @ [ConSend frame, OnError ''Failed to send audio data'', ConClose], r')"
proof -
  obtain c where c: "asrClient sample_recognizer = Some c" "\<not> connected_notify c"
    using sample_recognizer_ready(2) by blast
  let ?c = "c\<lparr>asr_callback := Some \<lparr>has_onResult = True, has_onError = True\<rparr>\<rparr>"
  let ?c1 = "snd (connect ref_lib (?c\<lparr>use_sync_connect := True\<rparr>) (Created sample_connection))"
  have sc: "sync_connect ref_lib ?c (Created sample_connection) [EvOpen]
      = Inr (True, [CbOpen, ConSend (full_req_param ?c1)],
             ?c1\<lparr>connected_notify := True, connected := True\<rparr>)"
    using c(2) by (intro sync_connect_open) simp_all
  have con: "con (?c1\<lparr>connected_notify := True, connected := True\<rparr>) \<noteq> None"
    by (simp add: connect_created_con)
  show ?thesis
    using recognize_closes_after_send [OF sample_recognizer_ready(1) sample_audio_not_empty
        c(1) sc con, of 1 0]
    by auto
qed

end
